theory Spec2Isabelle
  imports Complex_Main
begin

section \<open>JavaScript values the service computes with\<close>

text \<open>
  The service is TypeScript. Three kinds of JavaScript value matter to the expiry logic:
  the Number that \<^verbatim>\<open>parseInt\<close> and \<^verbatim>\<open>getTime\<close> return, the \<^verbatim>\<open>Date\<close> object,
  and the ISO-8601 text of \<^verbatim>\<open>toISOString\<close>.

  A Number of the time arithmetic is modelled by the integer it holds, or \<open>NaN\<close>. Every
  such Number is integer-valued: a parsed digit string, a time value, or an integer field
  the validation layer has let through. JavaScript arithmetic on integers is exact below
  \<open>2^53\<close>, and a time value is at most \<open>8.64 * 10^15 < 2^53\<close> in magnitude, so the range
  test of \<open>newDate\<close> decides the same way on the exact integer as on the double. (The
  Numbers of a request body, which need not be integers, have a type of their own below.)
\<close>

datatype jsnum = Num int | NaN

text \<open>A \<^verbatim>\<open>Date\<close> holds a time value: milliseconds since the epoch, or NaN (Invalid Date).\<close>

datatype jsdate = Instant int | InvalidDate

definition maxTimeValue :: int where
  "maxTimeValue = 8640000000000000"

text \<open>\<^verbatim>\<open>new Date(value)\<close> for a Number: TimeClip keeps a finite value within the range.\<close>

definition newDate :: "jsnum \<Rightarrow> jsdate" where
  "newDate v =
     (case v of
        NaN \<Rightarrow> InvalidDate
      | Num n \<Rightarrow> if \<bar>n\<bar> > maxTimeValue then InvalidDate else Instant n)"

text \<open>\<^verbatim>\<open>date.getTime()\<close>.\<close>

definition getTime :: "jsdate \<Rightarrow> jsnum" where
  "getTime d = (case d of Instant t \<Rightarrow> Num t | InvalidDate \<Rightarrow> NaN)"

text \<open>\<^verbatim>\<open>a + b\<close> on Numbers: NaN is absorbing.\<close>

definition num_add :: "jsnum \<Rightarrow> jsnum \<Rightarrow> jsnum" where
  "num_add a b =
     (case a of
        NaN \<Rightarrow> NaN
      | Num x \<Rightarrow> (case b of NaN \<Rightarrow> NaN | Num y \<Rightarrow> Num (x + y)))"

text \<open>
  \<^verbatim>\<open>a >= b\<close> and \<^verbatim>\<open>a < b\<close> on two Dates compare their time values as Numbers; a
  comparison with NaN on either side is false.
\<close>

definition date_ge :: "jsdate \<Rightarrow> jsdate \<Rightarrow> bool" where
  "date_ge a b =
     (case a of
        InvalidDate \<Rightarrow> False
      | Instant x \<Rightarrow> (case b of InvalidDate \<Rightarrow> False | Instant y \<Rightarrow> y \<le> x))"

definition date_lt :: "jsdate \<Rightarrow> jsdate \<Rightarrow> bool" where
  "date_lt a b =
     (case a of
        InvalidDate \<Rightarrow> False
      | Instant x \<Rightarrow> (case b of InvalidDate \<Rightarrow> False | Instant y \<Rightarrow> x < y))"

text \<open>
  \<^verbatim>\<open>toISOString\<close> renders a valid time value with millisecond precision, so the text
  determines the instant. The text is modelled by the instant it denotes.
\<close>

datatype isostring = ISOString int

subsection \<open>parseInt with radix 10\<close>

text \<open>
  \<^verbatim>\<open>parseInt(s, 10)\<close>: leading white space is dropped, one sign is read, then the
  longest prefix of decimal digits; with no digit the result is NaN. Anything after the
  digits is ignored. A header value is a byte string, so the white space that can occur
  is TAB, LF, VT, FF, CR, SP and NBSP.
\<close>

definition isWhiteSpace :: "char \<Rightarrow> bool" where
  "isWhiteSpace c = (of_char c \<in> {9, 10, 11, 12, 13, 32, 160 :: nat})"

definition isDigit :: "char \<Rightarrow> bool" where
  "isDigit c = (48 \<le> (of_char c :: nat) \<and> (of_char c :: nat) \<le> 57)"

definition digitValue :: "char \<Rightarrow> int" where
  "digitValue c = int (of_char c) - 48"

fun digitsValue :: "int \<Rightarrow> string \<Rightarrow> int" where
  "digitsValue acc [] = acc"
| "digitsValue acc (c # cs) = digitsValue (acc * 10 + digitValue c) cs"

definition parseInt10 :: "string \<Rightarrow> jsnum" where
  "parseInt10 s =
     (let S = dropWhile isWhiteSpace s;
          sign = (case S of [] \<Rightarrow> 1 | c # _ \<Rightarrow> if c = CHR ''-'' then - 1 else (1 :: int));
          S' = (case S of [] \<Rightarrow> [] | c # cs \<Rightarrow> if c = CHR ''+'' \<or> c = CHR ''-'' then cs else S);
          Z = takeWhile isDigit S'
      in if Z = [] then NaN else Num (sign * digitsValue 0 Z))"

text \<open>
  What the specification calls a valid override: a decimal-integer string, that is an
  optional minus sign followed by one or more decimal digits, and the integer it denotes.
  These two follow the specification's wording, not the code; they are compared with
  \<open>parseInt10\<close> below.
\<close>

definition decimalInteger :: "string \<Rightarrow> bool" where
  "decimalInteger s =
     (case s of
        [] \<Rightarrow> False
      | c # cs \<Rightarrow> if c = CHR ''-'' then cs \<noteq> [] \<and> list_all isDigit cs else list_all isDigit s)"

definition decimalValue :: "string \<Rightarrow> int" where
  "decimalValue s =
     (case s of
        [] \<Rightarrow> 0
      | c # cs \<Rightarrow> if c = CHR ''-'' then - digitsValue 0 cs else digitsValue 0 s)"

section \<open>Time utilities (src/lib/time.ts)\<close>

text \<open>
  A \<^verbatim>\<open>Headers\<close> object is modelled by its \<^verbatim>\<open>get\<close>: the value stored under a name, or
  nothing (the code asks for the one name \<^verbatim>\<open>x-test-now-ms\<close>, in lower case). \<^verbatim>\<open>process.env.TEST_MODE\<close> is a string or undefined. The system clock read by
  \<^verbatim>\<open>new Date()\<close> is an input of the model: the wall-clock instant in milliseconds.
\<close>

type_synonym headers = "string \<Rightarrow> string option"

definition getCurrentTime :: "string option \<Rightarrow> headers \<Rightarrow> int \<Rightarrow> jsdate" where
  "getCurrentTime TEST_MODE hdrs wall =
     (if TEST_MODE = Some ''1'' then
        (case hdrs ''x-test-now-ms'' of
           None \<Rightarrow> Instant wall
         | Some testNowMs \<Rightarrow>
             if testNowMs \<noteq> [] then newDate (parseInt10 testNowMs) else Instant wall)
      else Instant wall)"

definition calculateExpiresAt :: "int \<Rightarrow> jsdate \<Rightarrow> jsdate" where
  "calculateExpiresAt ttlSeconds now = newDate (num_add (getTime now) (Num (ttlSeconds * 1000)))"

text \<open>\<^verbatim>\<open>!expiresAt\<close> is true for null only: every Date object is truthy.\<close>

definition isPasteExpired :: "jsdate option \<Rightarrow> jsdate \<Rightarrow> bool" where
  "isPasteExpired expiresAt now =
     (case expiresAt of
        None \<Rightarrow> False
      | Some e \<Rightarrow> date_ge now e)"

section \<open>The paste table\<close>

text \<open>
  One row of the Prisma model \<^verbatim>\<open>Paste\<close> (design.md): \<^verbatim>\<open>id String @id @default(cuid())\<close>,
  \<^verbatim>\<open>content String\<close>, \<^verbatim>\<open>createdAt DateTime @default(now())\<close>, \<^verbatim>\<open>expiresAt DateTime?\<close>,
  \<^verbatim>\<open>maxViews Int?\<close>, \<^verbatim>\<open>viewCount Int @default(0)\<close>. The client of src/lib/db.ts is
  PostgreSQL through the Neon adapter. A DateTime column holds an instant (milliseconds
  since the epoch), never NaN; the client hands it to the code as a valid Date. An Int
  column is a 32-bit signed integer. The table is a map from the primary key to the row.
\<close>

record paste =
  pasteId :: string
  content :: string
  createdAt :: int
  expiresAt :: "int option"
  maxViews :: "int option"
  viewCount :: int

type_synonym store = "string \<Rightarrow> paste option"

text \<open>The bounds of an Int column.\<close>

definition int32Min :: int where
  "int32Min = - 2147483648"

definition int32Max :: int where
  "int32Max = 2147483647"

text \<open>
  The instants a DateTime argument may carry: the client sends the ISO-8601 text and the
  store reads a four-digit year, 0001-01-01T00:00:00.000Z to 9999-12-31T23:59:59.999Z.
\<close>

definition minDateTime :: int where
  "minDateTime = - 62135596800000"

definition maxDateTime :: int where
  "maxDateTime = 253402300799999"

section \<open>The validation layer (src/lib/validation.ts)\<close>

text \<open>
  \<open>validateCreatePaste\<close> receives a value of type \<^verbatim>\<open>unknown\<close>: the parsed request body. A
  JavaScript value is modelled by \<open>jsvalue\<close>; an object is the list of its own properties
  in the order they were set, a later one replacing an earlier one of the same name.
  A Number in a body can be any finite value, NaN or an infinity; the finite ones are
  rationals.
\<close>

datatype number = Finite rat | NotANumber | PlusInfinity | MinusInfinity

datatype jsvalue =
    JUndefined
  | JNull
  | JBoolean bool
  | JNumber number
  | JString string
  | JArray "jsvalue list"
  | JObject "(string \<times> jsvalue) list"

text \<open>\<^verbatim>\<open>data.name\<close> for one of the three names the code reads: undefined when absent.\<close>

definition property :: "jsvalue \<Rightarrow> string \<Rightarrow> jsvalue" where
  "property data name =
     (case data of
        JObject props \<Rightarrow> (case map_of (rev props) name of None \<Rightarrow> JUndefined | Some v \<Rightarrow> v)
      | _ \<Rightarrow> JUndefined)"

text \<open>\<^verbatim>\<open>typeof input !== 'object' || input === null\<close>: arrays are objects too.\<close>

definition notAnObject :: "jsvalue \<Rightarrow> bool" where
  "notAnObject input = (case input of JObject _ \<Rightarrow> False | JArray _ \<Rightarrow> False | _ \<Rightarrow> True)"

text \<open>\<^verbatim>\<open>value !== undefined && value !== null\<close>, which is also \<^verbatim>\<open>value != null\<close>.\<close>

definition present :: "jsvalue \<Rightarrow> bool" where
  "present v = (v \<noteq> JUndefined \<and> v \<noteq> JNull)"

definition isPositiveInteger :: "jsvalue \<Rightarrow> bool" where
  "isPositiveInteger v =
     (case v of
        JNumber (Finite q) \<Rightarrow> of_int \<lfloor>q\<rfloor> = q \<and> 1 \<le> q
      | _ \<Rightarrow> False)"

text \<open>
  The fields of \<^verbatim>\<open>ValidatedCreatePasteInput\<close> are typed \<^verbatim>\<open>string\<close>, \<^verbatim>\<open>number?\<close>, \<^verbatim>\<open>number?\<close>.
  The Numbers that \<open>validateCreatePaste\<close> lets through are integers (\<open>isPositiveInteger\<close>),
  so the record holds them as integers; \<open>asInteger\<close> reads one off the value.
\<close>

record ValidatedCreatePasteInput =
  in_content :: string
  ttl_seconds :: "int option"
  max_views :: "int option"

record ValidationError =
  field :: string
  message :: string

datatype ValidationResult = Valid ValidatedCreatePasteInput | Invalid "ValidationError list"

definition asInteger :: "jsvalue \<Rightarrow> int" where
  "asInteger v = (case v of JNumber (Finite q) \<Rightarrow> \<lfloor>q\<rfloor> | _ \<Rightarrow> 0)"

definition asString :: "jsvalue \<Rightarrow> string" where
  "asString v = (case v of JString s \<Rightarrow> s | _ \<Rightarrow> [])"

definition validateCreatePaste :: "jsvalue \<Rightarrow> ValidationResult" where
  "validateCreatePaste input =
     (if notAnObject input
      then Invalid [\<lparr> field = ''body'', message = ''Request body must be an object'' \<rparr>]
      else
        let data = input;
            contentErrors =
              (case property data ''content'' of
                 JUndefined \<Rightarrow> [\<lparr> field = ''content'', message = ''content is required'' \<rparr>]
               | JNull \<Rightarrow> [\<lparr> field = ''content'', message = ''content is required'' \<rparr>]
               | JString s \<Rightarrow>
                   if length s = 0
                   then [\<lparr> field = ''content'', message = ''content cannot be empty'' \<rparr>]
                   else []
               | _ \<Rightarrow> [\<lparr> field = ''content'', message = ''content must be a string'' \<rparr>]);
            ttlErrors =
              (if present (property data ''ttl_seconds'')
                  \<and> \<not> isPositiveInteger (property data ''ttl_seconds'')
               then [\<lparr> field = ''ttl_seconds'',
                       message = ''ttl_seconds must be an integer >= 1'' \<rparr>]
               else []);
            viewErrors =
              (if present (property data ''max_views'')
                  \<and> \<not> isPositiveInteger (property data ''max_views'')
               then [\<lparr> field = ''max_views'',
                       message = ''max_views must be an integer >= 1'' \<rparr>]
               else []);
            errors = contentErrors @ ttlErrors @ viewErrors
        in if length errors > 0 then Invalid errors
           else Valid \<lparr> in_content = asString (property data ''content''),
                         ttl_seconds =
                           (if present (property data ''ttl_seconds'')
                            then Some (asInteger (property data ''ttl_seconds'')) else None),
                         max_views =
                           (if present (property data ''max_views'')
                            then Some (asInteger (property data ''max_views'')) else None) \<rparr>)"

section \<open>The paste service (src/lib/paste-service.ts)\<close>

record PasteCreateResponse =
  new_id :: string
  url :: string

record PasteFetchResponse =
  out_content :: string
  remaining_views :: "int option"
  expires_at :: "isostring option"

text \<open>
  What \<^verbatim>\<open>prisma.paste.create\<close> can throw on the arguments \<open>createPaste\<close> gives it: the
  client refuses an Invalid Date; a DateTime outside the years 0001 to 9999 and an Int
  outside 32 bits are refused; PostgreSQL text cannot hold the character NUL; and the
  table refuses a second row under an existing primary key.
\<close>

datatype create_error =
    InvalidDateArgument
  | DateTimeOutOfRange
  | IntOutOfRange
  | NulInText
  | UniqueConstraint

text \<open>
  \<^verbatim>\<open>createPaste(input, now, baseUrl)\<close>. The \<^verbatim>\<open>data\<close> passed to \<^verbatim>\<open>prisma.paste.create\<close>
  holds \<^verbatim>\<open>content\<close>, \<^verbatim>\<open>expiresAt\<close> and \<^verbatim>\<open>maxViews\<close> only; the store fills the other three
  columns with their defaults. The two values the defaults draw from outside are inputs
  of the model: \<open>cuid\<close>, the identifier \<^verbatim>\<open>cuid()\<close> generates, and \<open>dbNow\<close>, the instant
  \<^verbatim>\<open>now()\<close> reads when the row is inserted. \<^verbatim>\<open>input.ttl_seconds ? ... : null\<close> tests
  truthiness: undefined and 0 both give null. A thrown error leaves the table as it was.
\<close>

definition createPaste ::
  "store \<Rightarrow> string \<Rightarrow> int \<Rightarrow> ValidatedCreatePasteInput \<Rightarrow> jsdate \<Rightarrow> string
     \<Rightarrow> create_error + (PasteCreateResponse \<times> store)" where
  "createPaste db cuid dbNow input now baseUrl =
     (let expires =
            (case ttl_seconds input of
               None \<Rightarrow> None
             | Some t \<Rightarrow> if t \<noteq> 0 then Some (calculateExpiresAt t now) else None)
      in case expires of
           Some InvalidDate \<Rightarrow> Inl InvalidDateArgument
         | _ \<Rightarrow>
           let expiresMs = (case expires of Some (Instant t) \<Rightarrow> Some t | _ \<Rightarrow> None)
           in if (case expiresMs of None \<Rightarrow> False | Some t \<Rightarrow> t < minDateTime \<or> maxDateTime < t)
              then Inl DateTimeOutOfRange
              else if (case max_views input of
                         None \<Rightarrow> False
                       | Some m \<Rightarrow> m < int32Min \<or> int32Max < m)
              then Inl IntOutOfRange
              else if CHR 0x00 \<in> set (in_content input) then Inl NulInText
              else if db cuid \<noteq> None then Inl UniqueConstraint
              else
                let row = \<lparr> pasteId = cuid,
                            content = in_content input,
                            createdAt = dbNow,
                            expiresAt = expiresMs,
                            maxViews = max_views input,
                            viewCount = 0 \<rparr>
                in Inr (\<lparr> new_id = pasteId row, url = baseUrl @ ''/p/'' @ pasteId row \<rparr>,
                        db(cuid \<mapsto> row)))"

text \<open>
  The body of \<open>fetchPaste\<close> and of \<open>getPasteContent\<close> runs inside \<^verbatim>\<open>prisma.$transaction\<close>
  with no isolation level given. It makes two calls on the store: \<^verbatim>\<open>findUnique\<close>, whose
  row the JavaScript checks, and then \<^verbatim>\<open>update\<close> with \<^verbatim>\<open>viewCount: { increment: 1 }\<close>.
  The update adds 1 to the count the row holds when the update runs, which need not be
  the count that was read. It throws when the row is gone, and when the count would
  leave the Int column; a thrown error rolls the transaction back.
\<close>

datatype tx_error = RecordNotFound | IntegerOutOfRange

definition updateIncrement :: "store \<Rightarrow> string \<Rightarrow> tx_error + (paste \<times> store)" where
  "updateIncrement db i =
     (case db i of
        None \<Rightarrow> Inl RecordNotFound
      | Some row \<Rightarrow>
          if int32Max < viewCount row + 1 then Inl IntegerOutOfRange
          else
            let updatedPaste = row\<lparr> viewCount := viewCount row + 1 \<rparr>
            in Inr (updatedPaste, db(i \<mapsto> updatedPaste)))"

text \<open>
  \<^verbatim>\<open>fetchPaste(id, now)\<close>, when no other transaction writes between its two calls on the
  store: both calls see the table \<open>db\<close>. The value is what the transaction returns (\<open>Inr None\<close>
  is null) or throws (\<open>Inl\<close>), with the table it leaves.
\<close>

definition fetchPaste ::
  "store \<Rightarrow> string \<Rightarrow> jsdate \<Rightarrow> (tx_error + PasteFetchResponse option) \<times> store" where
  "fetchPaste db i now =
     (case db i of
        None \<Rightarrow> (Inr None, db)
      | Some paste \<Rightarrow>
          if isPasteExpired (map_option Instant (expiresAt paste)) now then (Inr None, db)
          else if (case maxViews paste of None \<Rightarrow> False | Some m \<Rightarrow> m \<le> viewCount paste)
          then (Inr None, db)
          else
            (case updateIncrement db i of
               Inl e \<Rightarrow> (Inl e, db)
             | Inr (updatedPaste, db') \<Rightarrow>
                 let remaining =
                       (case maxViews updatedPaste of
                          None \<Rightarrow> None
                        | Some m \<Rightarrow> Some (max 0 (m - viewCount updatedPaste)))
                 in (Inr (Some \<lparr> out_content = content updatedPaste,
                                  remaining_views = remaining,
                                  expires_at = map_option ISOString (expiresAt updatedPaste) \<rparr>),
                     db')))"

text \<open>\<^verbatim>\<open>getPasteContent(id, now)\<close>: the same body, returning the content alone.\<close>

definition getPasteContent ::
  "store \<Rightarrow> string \<Rightarrow> jsdate \<Rightarrow> (tx_error + string option) \<times> store" where
  "getPasteContent db i now =
     (case db i of
        None \<Rightarrow> (Inr None, db)
      | Some paste \<Rightarrow>
          if isPasteExpired (map_option Instant (expiresAt paste)) now then (Inr None, db)
          else if (case maxViews paste of None \<Rightarrow> False | Some m \<Rightarrow> m \<le> viewCount paste)
          then (Inr None, db)
          else
            (case updateIncrement db i of
               Inl e \<Rightarrow> (Inl e, db)
             | Inr (updatedPaste, db') \<Rightarrow> (Inr (Some (content updatedPaste)), db')))"

section \<open>The callers: the JSON route and the HTML page\<close>

text \<open>
  \<^verbatim>\<open>GET /api/pastes/[id]\<close> takes \<open>now\<close> from \<open>getCurrentTime\<close> and answers 404 for null,
  200 with the result otherwise, and 500 from its \<^verbatim>\<open>catch\<close> when the service throws. The
  page component \<^verbatim>\<open>PastePage\<close> takes \<open>now\<close> from \<^verbatim>\<open>new Date()\<close> and renders the content or
  the not-found page; an error it does not catch reaches the error page (error.tsx).
  Both run in a process with its \<^verbatim>\<open>TEST_MODE\<close> and serve a request with its headers, so
  both models receive them, whether the code reads them or not. Each is the request
  served with no other request's write in between.
\<close>

datatype api_response = Json200 PasteFetchResponse | Json404 string | Json500 string

definition GET :: "string option \<Rightarrow> headers \<Rightarrow> int \<Rightarrow> store \<Rightarrow> string \<Rightarrow> api_response \<times> store" where
  "GET TEST_MODE hdrs wall db i =
     (let now = getCurrentTime TEST_MODE hdrs wall
      in case fetchPaste db i now of
           (Inr None, db') \<Rightarrow> (Json404 ''Paste not found'', db')
         | (Inr (Some result), db') \<Rightarrow> (Json200 result, db')
         | (Inl e, db') \<Rightarrow> (Json500 ''Internal server error'', db'))"

datatype page_result = NotFound | Html string | ErrorPage

definition PastePage :: "string option \<Rightarrow> headers \<Rightarrow> int \<Rightarrow> store \<Rightarrow> string \<Rightarrow> page_result \<times> store" where
  "PastePage TEST_MODE hdrs wall db i =
     (let now = Instant wall
      in case getPasteContent db i now of
           (Inr None, db') \<Rightarrow> (NotFound, db')
         | (Inr (Some c), db') \<Rightarrow> (Html c, db')
         | (Inl e, db') \<Rightarrow> (ErrorPage, db'))"

section \<open>Consume calls one after the other\<close>

text \<open>
  A consume call is one of the two service functions, on some id at some \<open>now\<close>. \<open>consume\<close>
  runs one call with nothing in between its read and its update and reports how it
  ended; \<open>consumeAll\<close> runs calls one after the other, each on the table the previous one
  left.
\<close>

datatype call = Fetch string jsdate | GetContent string jsdate

datatype outcome = Consumed | Unavailable | Failed tx_error

fun target :: "call \<Rightarrow> string" where
  "target (Fetch i now) = i"
| "target (GetContent i now) = i"

fun instant :: "call \<Rightarrow> jsdate" where
  "instant (Fetch i now) = now"
| "instant (GetContent i now) = now"

fun consume :: "store \<Rightarrow> call \<Rightarrow> outcome \<times> store" where
  "consume db (Fetch i now) =
     (case fetchPaste db i now of
        (Inr None, db') \<Rightarrow> (Unavailable, db')
      | (Inr (Some r), db') \<Rightarrow> (Consumed, db')
      | (Inl e, db') \<Rightarrow> (Failed e, db'))"
| "consume db (GetContent i now) =
     (case getPasteContent db i now of
        (Inr None, db') \<Rightarrow> (Unavailable, db')
      | (Inr (Some c), db') \<Rightarrow> (Consumed, db')
      | (Inl e, db') \<Rightarrow> (Failed e, db'))"

fun consumeAll :: "store \<Rightarrow> call list \<Rightarrow> outcome list \<times> store" where
  "consumeAll db [] = ([], db)"
| "consumeAll db (c # cs) =
     (case consume db c of
        (ok, db') \<Rightarrow> (case consumeAll db' cs of (oks, db'') \<Rightarrow> (ok # oks, db'')))"

section \<open>Consume calls in flight together\<close>

text \<open>
  Several requests are served at once, so the two store calls of one transaction can
  have store calls of other transactions between them. A transaction in flight is
  \<open>Pending\<close> before its \<^verbatim>\<open>findUnique\<close>, \<open>Admitted\<close> when the row it read passed the checks
  and its \<^verbatim>\<open>update\<close> is still to come, and \<open>Returned\<close> with its value once it has ended.
  \<open>txStep\<close> takes one transaction one store call further, on the table as it is at that
  moment. \<open>interleave\<close> follows a schedule: a list naming, step by step, which of the
  transactions in flight moves next. \<open>admits\<close> is \<^verbatim>\<open>findUnique\<close> with the checks of
  lines 74 to 86, the same in both functions.
\<close>

datatype returned =
    FetchReturned "PasteFetchResponse option"
  | ContentReturned "string option"
  | Thrown tx_error

datatype tx = Pending call | Admitted call | Returned returned

definition admits :: "store \<Rightarrow> string \<Rightarrow> jsdate \<Rightarrow> bool" where
  "admits db i now =
     (case db i of
        None \<Rightarrow> False
      | Some paste \<Rightarrow>
          if isPasteExpired (map_option Instant (expiresAt paste)) now then False
          else if (case maxViews paste of None \<Rightarrow> False | Some m \<Rightarrow> m \<le> viewCount paste)
          then False
          else True)"

fun returnsNull :: "call \<Rightarrow> returned" where
  "returnsNull (Fetch i now) = FetchReturned None"
| "returnsNull (GetContent i now) = ContentReturned None"

fun returnsFor :: "call \<Rightarrow> paste \<Rightarrow> returned" where
  "returnsFor (Fetch i now) updatedPaste =
     FetchReturned
       (Some \<lparr> out_content = content updatedPaste,
               remaining_views =
                 (case maxViews updatedPaste of
                    None \<Rightarrow> None
                  | Some m \<Rightarrow> Some (max 0 (m - viewCount updatedPaste))),
               expires_at = map_option ISOString (expiresAt updatedPaste) \<rparr>)"
| "returnsFor (GetContent i now) updatedPaste = ContentReturned (Some (content updatedPaste))"

fun txStep :: "store \<Rightarrow> tx \<Rightarrow> tx \<times> store" where
  "txStep db (Pending c) =
     (if admits db (target c) (instant c) then (Admitted c, db)
      else (Returned (returnsNull c), db))"
| "txStep db (Admitted c) =
     (case updateIncrement db (target c) of
        Inl e \<Rightarrow> (Returned (Thrown e), db)
      | Inr (updatedPaste, db') \<Rightarrow> (Returned (returnsFor c updatedPaste), db'))"
| "txStep db (Returned r) = (Returned r, db)"

fun interleave :: "store \<times> tx list \<Rightarrow> nat list \<Rightarrow> store \<times> tx list" where
  "interleave st [] = st"
| "interleave (db, txs) (k # ks) =
     (if k < length txs
      then (case txStep db (txs ! k) of (t, db') \<Rightarrow> interleave (db', txs[k := t]) ks)
      else interleave (db, txs) ks)"

text \<open>Whether a transaction has ended with content.\<close>

fun deliveredContent :: "tx \<Rightarrow> bool" where
  "deliveredContent (Returned (FetchReturned (Some r))) = True"
| "deliveredContent (Returned (ContentReturned (Some c))) = True"
| "deliveredContent t = False"

section \<open>What the validation layer lets through\<close>

lemma validateCreatePaste_data:
  assumes "validateCreatePaste input = Valid data"
  shows "in_content data \<noteq> []
         \<and> (case ttl_seconds data of None \<Rightarrow> True | Some t \<Rightarrow> 1 \<le> t)
         \<and> (case max_views data of None \<Rightarrow> True | Some m \<Rightarrow> 1 \<le> m)"
proof -
  have pos: "\<And>v. isPositiveInteger v \<Longrightarrow> 1 \<le> asInteger v"
    by (auto simp: isPositiveInteger_def asInteger_def le_floor_iff
          split: jsvalue.splits number.splits)
  from assms show ?thesis
    by (auto simp: validateCreatePaste_def Let_def asString_def pos
          split: if_splits jsvalue.splits)
qed

lemma validate_example:
  "validateCreatePaste
     (JObject [(''content'', JString ''Hello''), (''max_views'', JNumber (Finite 1))])
   = Valid \<lparr> in_content = ''Hello'', ttl_seconds = None, max_views = Some 1 \<rparr>"
  by (simp add: validateCreatePaste_def notAnObject_def property_def present_def
        isPositiveInteger_def asInteger_def asString_def)

section \<open>The expiry decision\<close>

text \<open>
  C5. The expiry decision is false without an expiry instant, true when \<open>now >= expiresAt\<close>
  (equality included) and false when \<open>now < expiresAt\<close>; for instants \<open>T\<close> and \<open>n\<close> a paste
  expiring at \<open>T\<close> is unexpired at \<open>n\<close> exactly when \<open>n < T\<close>.
\<close>

theorem isPasteExpired_decision:
  "isPasteExpired None now = False
   \<and> (date_ge now e \<longrightarrow> isPasteExpired (Some e) now = True)
   \<and> (date_lt now e \<longrightarrow> isPasteExpired (Some e) now = False)
   \<and> isPasteExpired (Some (Instant T)) (Instant T) = True
   \<and> (isPasteExpired (Some (Instant T)) (Instant n) = (T \<le> n))
   \<and> ((\<not> isPasteExpired (Some (Instant T)) (Instant n)) = (n < T))"
  by (auto simp: isPasteExpired_def date_ge_def date_lt_def split: jsdate.splits)

theorem isPasteExpired_decision_witness:
  "date_ge (Instant 60000) (Instant 60000)
   \<and> isPasteExpired (Some (Instant 60000)) (Instant 60000) = True
   \<and> date_lt (Instant 59999) (Instant 60000)
   \<and> isPasteExpired (Some (Instant 60000)) (Instant 59999) = False"
  using isPasteExpired_decision [of "Instant 60000" "Instant 60000" 60000 60000]
        isPasteExpired_decision [of "Instant 59999" "Instant 60000" 60000 59999]
  by (simp add: date_ge_def date_lt_def)

section \<open>The clock\<close>

text \<open>
  C8. When \<^verbatim>\<open>TEST_MODE\<close> is not \<^verbatim>\<open>'1'\<close>, \<open>getCurrentTime\<close> returns the wall-clock instant
  whatever the request headers hold: two requests with different \<^verbatim>\<open>x-test-now-ms\<close>
  values, evaluated at the same wall-clock instant, get the same instant.
\<close>

theorem getCurrentTime_real_mode:
  assumes "TEST_MODE \<noteq> Some ''1''"
  shows "getCurrentTime TEST_MODE h1 wall = getCurrentTime TEST_MODE h2 wall
         \<and> getCurrentTime TEST_MODE h1 wall = Instant wall"
  using assms by (simp add: getCurrentTime_def)

theorem getCurrentTime_real_mode_witness:
  "Some ''0'' \<noteq> Some ''1''
   \<and> getCurrentTime (Some ''0'') [''x-test-now-ms'' \<mapsto> ''1000000000000''] 1762128000000
       = getCurrentTime (Some ''0'') [''x-test-now-ms'' \<mapsto> ''946684800000''] 1762128000000
   \<and> getCurrentTime (Some ''0'') [''x-test-now-ms'' \<mapsto> ''1000000000000''] 1762128000000
       = Instant 1762128000000"
  using getCurrentTime_real_mode
          [of "Some ''0''" "[''x-test-now-ms'' \<mapsto> ''1000000000000'']" 1762128000000
              "[''x-test-now-ms'' \<mapsto> ''946684800000'']"]
  by auto

section \<open>The service functions and the two store calls\<close>

text \<open>
  Each service function is its two store calls on one table: the checks of \<open>admits\<close>,
  then \<open>updateIncrement\<close>. A transaction in flight that takes both its steps with nothing
  in between ends as the function does.
\<close>

lemma fetchPaste_by_steps:
  "fetchPaste db i now =
     (if admits db i now
      then (case updateIncrement db i of
              Inl e \<Rightarrow> (Inl e, db)
            | Inr (updatedPaste, db') \<Rightarrow>
                (case returnsFor (Fetch i now) updatedPaste of
                   FetchReturned r \<Rightarrow> (Inr r, db') | _ \<Rightarrow> (Inr None, db')))
      else (Inr None, db))"
  by (auto simp: fetchPaste_def admits_def Let_def split: option.splits sum.splits)

lemma getPasteContent_by_steps:
  "getPasteContent db i now =
     (if admits db i now
      then (case updateIncrement db i of
              Inl e \<Rightarrow> (Inl e, db)
            | Inr (updatedPaste, db') \<Rightarrow> (Inr (Some (content updatedPaste)), db'))
      else (Inr None, db))"
  by (auto simp: getPasteContent_def admits_def Let_def split: option.splits sum.splits)

lemma interleave_alone_fetch:
  "interleave (db, [Pending (Fetch i now)]) [0, 0]
   = (snd (fetchPaste db i now),
      [Returned (case fst (fetchPaste db i now) of
                   Inr r \<Rightarrow> FetchReturned r | Inl e \<Rightarrow> Thrown e)])"
  by (auto simp: fetchPaste_by_steps split: sum.splits)

lemma interleave_alone_content:
  "interleave (db, [Pending (GetContent i now)]) [0, 0]
   = (snd (getPasteContent db i now),
      [Returned (case fst (getPasteContent db i now) of
                   Inr r \<Rightarrow> ContentReturned r | Inl e \<Rightarrow> Thrown e)])"
  by (auto simp: getPasteContent_by_steps split: sum.splits)

section \<open>One consume call\<close>



text \<open>
  The claim as stated (every row that exists and is available is incremented and
  served) fails at the top of the Int column: a row without a view limit that has been
  viewed 2147483647 times is available, the increment is refused, and \<open>fetchPaste\<close> throws.
\<close>

theorem view_count_overflow_counterexample:
  "admits
     [''a'' \<mapsto> \<lparr> pasteId = ''a'', content = ''X'', createdAt = 0, expiresAt = None,
                  maxViews = None, viewCount = 2147483647 \<rparr>]
     ''a'' (Instant 5)
   \<and> fetchPaste
       [''a'' \<mapsto> \<lparr> pasteId = ''a'', content = ''X'', createdAt = 0, expiresAt = None,
                    maxViews = None, viewCount = 2147483647 \<rparr>]
       ''a'' (Instant 5)
     = (Inl IntegerOutOfRange,
        [''a'' \<mapsto> \<lparr> pasteId = ''a'', content = ''X'', createdAt = 0, expiresAt = None,
                     maxViews = None, viewCount = 2147483647 \<rparr>])"
  by (simp add: fetchPaste_def admits_def updateIncrement_def isPasteExpired_def int32Max_def)

text \<open>
  C4, as amended. A row that exists and is available at \<open>now\<close> (not time-expired, not
  view-exhausted) passes the checks of \<open>fetchPaste\<close>. Its update, on a row whose stored
  \<open>viewCount\<close> is below 2147483647, stores that count plus exactly 1 and returns the stored
  content, the stored \<open>expiresAt\<close> (or null), and \<open>remaining_views\<close>: null when \<open>maxViews\<close>
  is null, otherwise \<open>max 0 (maxViews - newViewCount)\<close>, which is never negative. At a
  stored \<open>viewCount\<close> of 2147483647 the update throws and the table is left as it was. For
  a call with nothing between its read and its update, \<open>fetchPaste\<close> on an available row
  below that count returns exactly this. Whether the read and the update form one
  atomic step is not part of the statement.
\<close>

theorem fetchPaste_increments_and_reports:
  "(db i = Some p
      \<and> \<not> isPasteExpired (map_option Instant (expiresAt p)) now
      \<and> (case maxViews p of None \<Rightarrow> True | Some m \<Rightarrow> viewCount p < m)
    \<longrightarrow> txStep db (Pending (Fetch i now)) = (Admitted (Fetch i now), db))
   \<and> (db2 i = Some q \<and> viewCount q < int32Max
    \<longrightarrow> txStep db2 (Admitted (Fetch i now))
          = (Returned (FetchReturned
               (Some \<lparr> out_content = content q,
                       remaining_views =
                         (case maxViews q of
                            None \<Rightarrow> None
                          | Some m \<Rightarrow> Some (max 0 (m - (viewCount q + 1)))),
                       expires_at = map_option ISOString (expiresAt q) \<rparr>)),
             db2(i \<mapsto> q\<lparr> viewCount := viewCount q + 1 \<rparr>))
        \<and> (case maxViews q of None \<Rightarrow> True | Some m \<Rightarrow> 0 \<le> max 0 (m - (viewCount q + 1))))
   \<and> (db2 i = Some q \<and> viewCount q = int32Max
    \<longrightarrow> txStep db2 (Admitted (Fetch i now)) = (Returned (Thrown IntegerOutOfRange), db2))
   \<and> (db i = Some p
      \<and> \<not> isPasteExpired (map_option Instant (expiresAt p)) now
      \<and> (case maxViews p of None \<Rightarrow> True | Some m \<Rightarrow> viewCount p < m)
      \<and> viewCount p < int32Max
    \<longrightarrow> fetchPaste db i now
          = (Inr (Some \<lparr> out_content = content p,
                         remaining_views =
                           (case maxViews p of
                              None \<Rightarrow> None
                            | Some m \<Rightarrow> Some (max 0 (m - (viewCount p + 1)))),
                         expires_at = map_option ISOString (expiresAt p) \<rparr>),
             db(i \<mapsto> p\<lparr> viewCount := viewCount p + 1 \<rparr>)))"
proof (intro conjI impI)
  assume "db i = Some p
      \<and> \<not> isPasteExpired (map_option Instant (expiresAt p)) now
      \<and> (case maxViews p of None \<Rightarrow> True | Some m \<Rightarrow> viewCount p < m)"
  then show "txStep db (Pending (Fetch i now)) = (Admitted (Fetch i now), db)"
    by (auto simp: admits_def split: option.splits)
next
  assume "db2 i = Some q \<and> viewCount q < int32Max"
  then show "txStep db2 (Admitted (Fetch i now))
          = (Returned (FetchReturned
               (Some \<lparr> out_content = content q,
                       remaining_views =
                         (case maxViews q of
                            None \<Rightarrow> None
                          | Some m \<Rightarrow> Some (max 0 (m - (viewCount q + 1)))),
                       expires_at = map_option ISOString (expiresAt q) \<rparr>)),
             db2(i \<mapsto> q\<lparr> viewCount := viewCount q + 1 \<rparr>))"
    by (auto simp: updateIncrement_def Let_def split: option.splits)
next
  show "case maxViews q of None \<Rightarrow> True | Some m \<Rightarrow> 0 \<le> max 0 (m - (viewCount q + 1))"
    by (simp split: option.splits)
next
  assume "db2 i = Some q \<and> viewCount q = int32Max"
  then show "txStep db2 (Admitted (Fetch i now)) = (Returned (Thrown IntegerOutOfRange), db2)"
    by (simp add: updateIncrement_def)
next
  assume "db i = Some p
      \<and> \<not> isPasteExpired (map_option Instant (expiresAt p)) now
      \<and> (case maxViews p of None \<Rightarrow> True | Some m \<Rightarrow> viewCount p < m)
      \<and> viewCount p < int32Max"
  then show "fetchPaste db i now
          = (Inr (Some \<lparr> out_content = content p,
                         remaining_views =
                           (case maxViews p of
                              None \<Rightarrow> None
                            | Some m \<Rightarrow> Some (max 0 (m - (viewCount p + 1)))),
                         expires_at = map_option ISOString (expiresAt p) \<rparr>),
             db(i \<mapsto> p\<lparr> viewCount := viewCount p + 1 \<rparr>))"
    by (auto simp: fetchPaste_def updateIncrement_def Let_def split: option.splits)
qed

theorem fetchPaste_increments_and_reports_witness:
  "fetchPaste
     [''a'' \<mapsto> \<lparr> pasteId = ''a'', content = ''X'', createdAt = 0, expiresAt = Some 60000,
                  maxViews = Some 1, viewCount = 0 \<rparr>]
     ''a'' (Instant 30000)
   = (Inr (Some \<lparr> out_content = ''X'', remaining_views = Some 0,
                  expires_at = Some (ISOString 60000) \<rparr>),
      [''a'' \<mapsto> \<lparr> pasteId = ''a'', content = ''X'', createdAt = 0, expiresAt = Some 60000,
                   maxViews = Some 1, viewCount = 1 \<rparr>])
   \<and> txStep
       [''a'' \<mapsto> \<lparr> pasteId = ''a'', content = ''X'', createdAt = 0, expiresAt = Some 60000,
                    maxViews = Some 1, viewCount = 0 \<rparr>]
       (Pending (Fetch ''a'' (Instant 30000)))
     = (Admitted (Fetch ''a'' (Instant 30000)),
        [''a'' \<mapsto> \<lparr> pasteId = ''a'', content = ''X'', createdAt = 0, expiresAt = Some 60000,
                     maxViews = Some 1, viewCount = 0 \<rparr>])
   \<and> txStep
       [''a'' \<mapsto> \<lparr> pasteId = ''a'', content = ''X'', createdAt = 0, expiresAt = Some 60000,
                    maxViews = Some 1, viewCount = 1 \<rparr>]
       (Admitted (Fetch ''a'' (Instant 30000)))
     = (Returned (FetchReturned (Some \<lparr> out_content = ''X'', remaining_views = Some 0,
                                       expires_at = Some (ISOString 60000) \<rparr>)),
        [''a'' \<mapsto> \<lparr> pasteId = ''a'', content = ''X'', createdAt = 0, expiresAt = Some 60000,
                     maxViews = Some 1, viewCount = 2 \<rparr>])
   \<and> txStep
       [''a'' \<mapsto> \<lparr> pasteId = ''a'', content = ''X'', createdAt = 0, expiresAt = None,
                    maxViews = None, viewCount = 2147483647 \<rparr>]
       (Admitted (Fetch ''a'' (Instant 30000)))
     = (Returned (Thrown IntegerOutOfRange),
        [''a'' \<mapsto> \<lparr> pasteId = ''a'', content = ''X'', createdAt = 0, expiresAt = None,
                     maxViews = None, viewCount = 2147483647 \<rparr>])"
proof -
  let ?p = "\<lparr> pasteId = ''a'', content = ''X'', createdAt = 0, expiresAt = Some (60000::int),
              maxViews = Some (1::int), viewCount = 0 \<rparr>"
  let ?q = "\<lparr> pasteId = ''a'', content = ''X'', createdAt = 0, expiresAt = Some (60000::int),
              maxViews = Some (1::int), viewCount = 1 \<rparr>"
  let ?f = "\<lparr> pasteId = ''a'', content = ''X'', createdAt = 0, expiresAt = (None :: int option),
              maxViews = (None :: int option), viewCount = 2147483647 \<rparr>"
  note t = fetchPaste_increments_and_reports
             [of "[''a'' \<mapsto> ?p]" "''a''" ?p "Instant 30000" "[''a'' \<mapsto> ?q]" ?q]
  note u = fetchPaste_increments_and_reports
             [of "[''a'' \<mapsto> ?p]" "''a''" ?p "Instant 30000" "[''a'' \<mapsto> ?f]" ?f]
  have live: "\<not> isPasteExpired (map_option Instant (expiresAt ?p)) (Instant 30000)"
    by (simp add: isPasteExpired_def date_ge_def)
  from t live have a: "txStep [''a'' \<mapsto> ?p] (Pending (Fetch ''a'' (Instant 30000)))
                         = (Admitted (Fetch ''a'' (Instant 30000)), [''a'' \<mapsto> ?p])"
    by (simp add: int32Max_def)
  from conjunct1 [OF conjunct2 [OF t]]
  have b: "txStep [''a'' \<mapsto> ?q] (Admitted (Fetch ''a'' (Instant 30000)))
             = (Returned (FetchReturned (Some \<lparr> out_content = ''X'', remaining_views = Some 0,
                                               expires_at = Some (ISOString 60000) \<rparr>)),
                [''a'' \<mapsto> ?q\<lparr> viewCount := 2 \<rparr>])"
    by (simp add: int32Max_def)
  from conjunct1 [OF conjunct2 [OF conjunct2 [OF u]]]
  have c: "txStep [''a'' \<mapsto> ?f] (Admitted (Fetch ''a'' (Instant 30000)))
             = (Returned (Thrown IntegerOutOfRange), [''a'' \<mapsto> ?f])"
    by (simp add: int32Max_def)
  from conjunct2 [OF conjunct2 [OF conjunct2 [OF t]]] live
  have d: "fetchPaste [''a'' \<mapsto> ?p] ''a'' (Instant 30000)
             = (Inr (Some \<lparr> out_content = ''X'', remaining_views = Some 0,
                            expires_at = Some (ISOString 60000) \<rparr>),
                [''a'' \<mapsto> ?p\<lparr> viewCount := 1 \<rparr>])"
    by (simp add: int32Max_def)
  from a b c d show ?thesis by simp
qed

text \<open>
  C7. \<open>getPasteContent\<close> returns content exactly when \<open>fetchPaste\<close> returns a result on the
  same table, id and \<open>now\<close>; the content is that result's content field; and both leave
  the same table: the row with \<open>viewCount + 1\<close> on success, the table unchanged otherwise.
  Where one throws, the other throws the same error.
\<close>

theorem getPasteContent_same_consume_path:
  "(case fetchPaste db i now of
      (Inr None, db') \<Rightarrow> getPasteContent db i now = (Inr None, db') \<and> db' = db
    | (Inr (Some r), db') \<Rightarrow>
        getPasteContent db i now = (Inr (Some (out_content r)), db')
        \<and> (\<exists>p. db i = Some p \<and> out_content r = content p
                 \<and> db' = db(i \<mapsto> p\<lparr> viewCount := viewCount p + 1 \<rparr>))
    | (Inl e, db') \<Rightarrow> getPasteContent db i now = (Inl e, db') \<and> db' = db)"
  by (auto simp: fetchPaste_def getPasteContent_def updateIncrement_def Let_def
        split: option.splits)

section \<open>The HTML page and the override\<close>

lemma parseInt10_70000: "parseInt10 ''70000'' = Num 70000"
  by (simp add: parseInt10_def isWhiteSpace_def isDigit_def digitValue_def)

text \<open>
  C10. The page component evaluates availability at the wall-clock instant: its outcome
  and the table it leaves do not depend on \<^verbatim>\<open>TEST_MODE\<close> or on the request headers, and
  are those of \<open>getPasteContent\<close> at \<open>Instant wall\<close>. The JSON route under
  \<^verbatim>\<open>TEST_MODE = '1'\<close> evaluates \<open>fetchPaste\<close> at the override instead.
\<close>

theorem PastePage_real_clock:
  "PastePage tm1 h1 wall db i = PastePage tm2 h2 wall db i
   \<and> PastePage tm1 h1 wall db i =
       (case getPasteContent db i (Instant wall) of
          (Inr None, db') \<Rightarrow> (NotFound, db')
        | (Inr (Some c), db') \<Rightarrow> (Html c, db')
        | (Inl e, db') \<Rightarrow> (ErrorPage, db'))
   \<and> (h1 ''x-test-now-ms'' = Some v \<and> v \<noteq> [] \<longrightarrow>
        GET (Some ''1'') h1 wall db i =
          (case fetchPaste db i (newDate (parseInt10 v)) of
             (Inr None, db') \<Rightarrow> (Json404 ''Paste not found'', db')
           | (Inr (Some r), db') \<Rightarrow> (Json200 r, db')
           | (Inl e, db') \<Rightarrow> (Json500 ''Internal server error'', db')))"
  by (simp add: PastePage_def GET_def getCurrentTime_def)

theorem PastePage_real_clock_witness:
  "PastePage (Some ''1'') [''x-test-now-ms'' \<mapsto> ''70000''] 30000
     [''a'' \<mapsto> \<lparr> pasteId = ''a'', content = ''X'', createdAt = 0, expiresAt = Some 60000,
                  maxViews = None, viewCount = 0 \<rparr>] ''a''
   = PastePage None Map.empty 30000
     [''a'' \<mapsto> \<lparr> pasteId = ''a'', content = ''X'', createdAt = 0, expiresAt = Some 60000,
                  maxViews = None, viewCount = 0 \<rparr>] ''a''
   \<and> fst (PastePage (Some ''1'') [''x-test-now-ms'' \<mapsto> ''70000''] 30000
     [''a'' \<mapsto> \<lparr> pasteId = ''a'', content = ''X'', createdAt = 0, expiresAt = Some 60000,
                  maxViews = None, viewCount = 0 \<rparr>] ''a'') = Html ''X''
   \<and> fst (GET (Some ''1'') [''x-test-now-ms'' \<mapsto> ''70000''] 30000
     [''a'' \<mapsto> \<lparr> pasteId = ''a'', content = ''X'', createdAt = 0, expiresAt = Some 60000,
                  maxViews = None, viewCount = 0 \<rparr>] ''a'') = Json404 ''Paste not found''"
proof -
  let ?db = "[''a'' \<mapsto> \<lparr> pasteId = ''a'', content = ''X'', createdAt = 0,
                           expiresAt = Some 60000, maxViews = None, viewCount = 0 \<rparr>]"
  let ?h = "[''x-test-now-ms'' \<mapsto> ''70000'']"
  note t = PastePage_real_clock [of "Some ''1''" ?h 30000 ?db "''a''" None Map.empty "''70000''"]
  have page: "getPasteContent ?db ''a'' (Instant 30000)
                = (Inr (Some ''X''), ?db(''a'' \<mapsto> \<lparr> pasteId = ''a'', content = ''X'', createdAt = 0,
                     expiresAt = Some 60000, maxViews = None, viewCount = 1 \<rparr>))"
    by (simp add: getPasteContent_def updateIncrement_def int32Max_def isPasteExpired_def
          date_ge_def Let_def)
  have api: "fetchPaste ?db ''a'' (newDate (parseInt10 ''70000'')) = (Inr None, ?db)"
    by (simp add: parseInt10_70000 newDate_def maxTimeValue_def fetchPaste_def
          isPasteExpired_def date_ge_def)
  from t have a: "PastePage (Some ''1'') ?h 30000 ?db ''a'' = PastePage None Map.empty 30000 ?db ''a''"
    by (rule conjunct1)
  from t have "PastePage (Some ''1'') ?h 30000 ?db ''a'' =
                 (case getPasteContent ?db ''a'' (Instant 30000) of
                    (Inr None, db') \<Rightarrow> (NotFound, db')
                  | (Inr (Some c), db') \<Rightarrow> (Html c, db')
                  | (Inl e, db') \<Rightarrow> (ErrorPage, db'))"
    by (rule conjunct1 [OF conjunct2])
  then have b: "fst (PastePage (Some ''1'') ?h 30000 ?db ''a'') = Html ''X''"
    by (simp add: page)
  from t have "GET (Some ''1'') ?h 30000 ?db ''a'' =
                 (case fetchPaste ?db ''a'' (newDate (parseInt10 ''70000'')) of
                    (Inr None, db') \<Rightarrow> (Json404 ''Paste not found'', db')
                  | (Inr (Some r), db') \<Rightarrow> (Json200 r, db')
                  | (Inl e, db') \<Rightarrow> (Json500 ''Internal server error'', db'))"
    by simp
  then have c: "fst (GET (Some ''1'') ?h 30000 ?db ''a'') = Json404 ''Paste not found''"
    by (simp add: api)
  from a b c show ?thesis by (intro conjI)
qed

section \<open>Consume calls one after the other: the bound and the count\<close>

text \<open>
  When the calls do not overlap, the view count of a row with \<open>maxViews = M\<close> stays between
  0 and \<open>M\<close>, and of \<open>N\<close> calls on a fresh row, none at an instant at which it is
  time-expired, the first \<open>min N M\<close> are admitted and the others refused.
\<close>

lemma snd_consumeAll_Cons:
  "snd (consumeAll db (c # cs)) = snd (consumeAll (snd (consume db c)) cs)"
  by (simp split: prod.splits)

lemma fst_consumeAll_Cons:
  "fst (consumeAll db (c # cs)) = fst (consume db c) # fst (consumeAll (snd (consume db c)) cs)"
  by (simp split: prod.splits)

lemma consume_other_row:
  "target c \<noteq> i \<Longrightarrow> snd (consume db c) i = db i"
  by (cases c)
     (auto simp: fetchPaste_def getPasteContent_def updateIncrement_def Let_def
        split: option.splits if_splits)

lemma consume_target_row:
  assumes "target c = i" and "db i = Some p"
  shows "consume db c =
           (if isPasteExpired (map_option Instant (expiresAt p)) (instant c)
               \<or> (case maxViews p of None \<Rightarrow> False | Some m \<Rightarrow> m \<le> viewCount p)
            then (Unavailable, db)
            else if int32Max < viewCount p + 1 then (Failed IntegerOutOfRange, db)
            else (Consumed, db(i \<mapsto> p\<lparr> viewCount := viewCount p + 1 \<rparr>)))"
  using assms
  by (cases c)
     (auto simp: fetchPaste_def getPasteContent_def updateIncrement_def Let_def
        split: option.splits)

lemma consume_keeps_bound:
  assumes "db i = Some p" and "maxViews p = Some M" and "0 \<le> viewCount p" and "viewCount p \<le> M"
  shows "\<exists>q. snd (consume db c) i = Some q \<and> maxViews q = Some M
              \<and> 0 \<le> viewCount q \<and> viewCount q \<le> M"
proof (cases "target c = i")
  case True
  then show ?thesis using assms by (simp add: consume_target_row)
next
  case False
  then show ?thesis using assms by (simp add: consume_other_row)
qed

lemma consumeAll_keeps_bound:
  assumes "db i = Some p" and "maxViews p = Some M" and "0 \<le> viewCount p" and "viewCount p \<le> M"
  shows "\<exists>q. snd (consumeAll db calls) i = Some q \<and> maxViews q = Some M
              \<and> 0 \<le> viewCount q \<and> viewCount q \<le> M"
  using assms
proof (induction calls arbitrary: db p)
  case Nil
  then show ?case by simp
next
  case (Cons c cs)
  from consume_keeps_bound [of db i p M c] Cons.prems
  obtain q where q: "snd (consume db c) i = Some q" "maxViews q = Some M"
      "0 \<le> viewCount q" "viewCount q \<le> M"
    by blast
  from Cons.IH [of "snd (consume db c)" q] q show ?case
    by (simp only: snd_consumeAll_Cons)
qed

lemma consumeAll_admits:
  assumes "db i = Some p" and "maxViews p = Some M" and "viewCount p \<le> M" and "M \<le> int32Max"
    and "\<forall>c \<in> set calls. target c = i
           \<and> \<not> isPasteExpired (map_option Instant (expiresAt p)) (instant c)"
  shows "fst (consumeAll db calls)
           = replicate (min (length calls) (nat (M - viewCount p))) Consumed
             @ replicate (length calls - nat (M - viewCount p)) Unavailable
         \<and> (\<exists>q. snd (consumeAll db calls) i = Some q
                \<and> viewCount q = viewCount p + int (min (length calls) (nat (M - viewCount p))))"
  using assms
proof (induction calls arbitrary: db p)
  case Nil
  then show ?case by simp
next
  case (Cons c cs)
  from Cons.prems have c: "target c = i"
      "\<not> isPasteExpired (map_option Instant (expiresAt p)) (instant c)"
    by simp_all
  from Cons.prems have rest: "\<forall>c \<in> set cs. target c = i
           \<and> \<not> isPasteExpired (map_option Instant (expiresAt p)) (instant c)"
    by simp
  show ?case
  proof (cases "viewCount p = M")
    case True
    with c Cons.prems have step: "consume db c = (Unavailable, db)"
      by (simp add: consume_target_row)
    from Cons.IH [of db p] Cons.prems(1-4) rest True step show ?thesis
      by (simp add: fst_consumeAll_Cons snd_consumeAll_Cons replicate_append_same
            del: consumeAll.simps)
  next
    case False
    let ?p' = "p\<lparr> viewCount := viewCount p + 1 \<rparr>"
    let ?db' = "db(i \<mapsto> ?p')"
    from False Cons.prems have lt: "viewCount p < M" by simp
    with c Cons.prems have step: "consume db c = (Consumed, ?db')"
      by (simp add: consume_target_row)
    have k: "nat (M - viewCount p) = Suc (nat (M - (viewCount p + 1)))"
      using lt by simp
    from rest have rest': "\<forall>c \<in> set cs. target c = i
           \<and> \<not> isPasteExpired (map_option Instant (expiresAt ?p')) (instant c)"
      by simp
    have pre1: "?db' i = Some ?p'" by simp
    have pre2: "maxViews ?p' = Some M" using Cons.prems(2) by simp
    have pre3: "viewCount ?p' \<le> M" using lt by simp
    have vc: "viewCount ?p' = viewCount p + 1" by simp
    have ih: "fst (consumeAll ?db' cs)
           = replicate (min (length cs) (nat (M - (viewCount p + 1)))) Consumed
             @ replicate (length cs - nat (M - (viewCount p + 1))) Unavailable
         \<and> (\<exists>q. snd (consumeAll ?db' cs) i = Some q
                \<and> viewCount q = viewCount p + 1 + int (min (length cs) (nat (M - (viewCount p + 1)))))"
      using Cons.IH [of ?db' ?p', OF pre1 pre2 pre3 Cons.prems(4) rest'] by (simp only: vc)
    show ?thesis
      unfolding fst_consumeAll_Cons snd_consumeAll_Cons step fst_conv snd_conv k
      using ih by (auto simp: add.assoc)
  qed
qed

lemma count_replicate:
  "count_list (replicate n x) y = (if x = y then n else 0)"
  by (induction n) auto

lemma serial_admission_count:
  assumes "db i = Some p" and "viewCount p = 0" and "maxViews p = Some M"
    and "0 \<le> M" and "M \<le> int32Max"
    and "\<forall>c \<in> set calls. target c = i
           \<and> \<not> isPasteExpired (map_option Instant (expiresAt p)) (instant c)"
  shows "int (count_list (fst (consumeAll db calls)) Consumed) = min (int (length calls)) M
         \<and> int (count_list (fst (consumeAll db calls)) Unavailable)
             = int (length calls) - min (int (length calls)) M
         \<and> (\<exists>q. snd (consumeAll db calls) i = Some q
                \<and> viewCount q = min (int (length calls)) M)"
proof -
  from assms have le: "viewCount p \<le> M" by simp
  note adm = consumeAll_admits [of db i p M calls, OF assms(1) assms(3) le assms(5) assms(6)]
  have m: "int (min (length calls) (nat M)) = min (int (length calls)) M"
    using assms(4) by simp
  from adm assms(2)
  have outs: "fst (consumeAll db calls)
                = replicate (min (length calls) (nat M)) Consumed
                  @ replicate (length calls - nat M) Unavailable"
    by simp
  have admitted: "int (count_list (fst (consumeAll db calls)) Consumed) = min (int (length calls)) M"
    unfolding outs using m by (simp add: count_list_append count_replicate)
  have refused: "int (count_list (fst (consumeAll db calls)) Unavailable)
                   = int (length calls) - min (int (length calls)) M"
    unfolding outs using assms(4) by (simp add: count_list_append count_replicate)
  from adm assms(2) m
  have final: "\<exists>q. snd (consumeAll db calls) i = Some q
                \<and> viewCount q = min (int (length calls)) M"
    by simp
  from admitted refused final show ?thesis by (intro conjI)
qed

section \<open>Consume calls in flight together: the bound and the count\<close>

text \<open>
  C1. The claim: for a paste created with \<open>maxViews = M\<close>, \<open>0 <= viewCount <= M\<close> in every
  reachable state. The code at a failing input: a paste created from the body
  \<^verbatim>\<open>{content: 'Hello', max_views: 1}\<close>, and two requests in flight together, one through
  \<open>fetchPaste\<close> and one through \<open>getPasteContent\<close>. Both read the row before either updates
  it, both pass the check on \<open>viewCount = 0\<close>, both increment: the stored \<open>viewCount\<close> is 2.
\<close>

theorem concurrent_views_exceed_limit:
  "validateCreatePaste
     (JObject [(''content'', JString ''Hello''), (''max_views'', JNumber (Finite 1))])
   = Valid \<lparr> in_content = ''Hello'', ttl_seconds = None, max_views = Some 1 \<rparr>
   \<and> createPaste Map.empty ''a'' 0
        \<lparr> in_content = ''Hello'', ttl_seconds = None, max_views = Some 1 \<rparr>
        (Instant 0) ''http://localhost:3000''
      = Inr (\<lparr> new_id = ''a'', url = ''http://localhost:3000/p/a'' \<rparr>,
             [''a'' \<mapsto> \<lparr> pasteId = ''a'', content = ''Hello'', createdAt = 0, expiresAt = None,
                          maxViews = Some 1, viewCount = 0 \<rparr>])
   \<and> interleave
        ([''a'' \<mapsto> \<lparr> pasteId = ''a'', content = ''Hello'', createdAt = 0, expiresAt = None,
                      maxViews = Some 1, viewCount = 0 \<rparr>],
         [Pending (Fetch ''a'' (Instant 0)), Pending (GetContent ''a'' (Instant 0))])
        [0, 1, 0, 1]
      = ([''a'' \<mapsto> \<lparr> pasteId = ''a'', content = ''Hello'', createdAt = 0, expiresAt = None,
                      maxViews = Some 1, viewCount = 2 \<rparr>],
         [Returned (FetchReturned (Some \<lparr> out_content = ''Hello'', remaining_views = Some 0,
                                         expires_at = None \<rparr>)),
          Returned (ContentReturned (Some ''Hello''))])"
  by (simp add: validate_example createPaste_def int32Min_def int32Max_def admits_def
        updateIncrement_def isPasteExpired_def Let_def)

text \<open>
  C2. The claim: of \<open>N\<close> concurrent calls on a fresh paste with \<open>maxViews = M\<close>, exactly
  \<open>min N M\<close> are admitted and the final \<open>viewCount\<close> is \<open>min N M\<close>. The code at a failing
  input, the one of the service's own test: \<open>maxViews = 3\<close> and five \<open>fetchPaste\<close> calls in
  flight together. All five read before any updates: all five return content, with
  \<open>remaining_views\<close> 2, 1, 0, 0, 0, and the stored \<open>viewCount\<close> is 5.
\<close>

theorem concurrent_fetches_all_admitted:
  "interleave
     ([''a'' \<mapsto> \<lparr> pasteId = ''a'', content = ''Hello'', createdAt = 0, expiresAt = None,
                   maxViews = Some 3, viewCount = 0 \<rparr>],
      [Pending (Fetch ''a'' (Instant 0)), Pending (Fetch ''a'' (Instant 0)),
       Pending (Fetch ''a'' (Instant 0)), Pending (Fetch ''a'' (Instant 0)),
       Pending (Fetch ''a'' (Instant 0))])
     [0, 1, 2, 3, 4, 0, 1, 2, 3, 4]
   = ([''a'' \<mapsto> \<lparr> pasteId = ''a'', content = ''Hello'', createdAt = 0, expiresAt = None,
                   maxViews = Some 3, viewCount = 5 \<rparr>],
      [Returned (FetchReturned (Some \<lparr> out_content = ''Hello'', remaining_views = Some 2,
                                      expires_at = None \<rparr>)),
       Returned (FetchReturned (Some \<lparr> out_content = ''Hello'', remaining_views = Some 1,
                                      expires_at = None \<rparr>)),
       Returned (FetchReturned (Some \<lparr> out_content = ''Hello'', remaining_views = Some 0,
                                      expires_at = None \<rparr>)),
       Returned (FetchReturned (Some \<lparr> out_content = ''Hello'', remaining_views = Some 0,
                                      expires_at = None \<rparr>)),
       Returned (FetchReturned (Some \<lparr> out_content = ''Hello'', remaining_views = Some 0,
                                      expires_at = None \<rparr>))])
   \<and> length (filter deliveredContent
        (snd (interleave
           ([''a'' \<mapsto> \<lparr> pasteId = ''a'', content = ''Hello'', createdAt = 0, expiresAt = None,
                         maxViews = Some 3, viewCount = 0 \<rparr>],
            [Pending (Fetch ''a'' (Instant 0)), Pending (Fetch ''a'' (Instant 0)),
             Pending (Fetch ''a'' (Instant 0)), Pending (Fetch ''a'' (Instant 0)),
             Pending (Fetch ''a'' (Instant 0))])
           [0, 1, 2, 3, 4, 0, 1, 2, 3, 4]))) = 5"
  by (simp add: int32Max_def admits_def updateIncrement_def isPasteExpired_def Let_def)

section \<open>Creation: the two timestamps\<close>

lemma calculateExpiresAt_valid:
  "calculateExpiresAt t now = Instant e \<Longrightarrow> \<exists>n. now = Instant n \<and> e = n + t * 1000"
  by (cases now)
     (auto simp: calculateExpiresAt_def getTime_def num_add_def newDate_def split: if_splits)

lemma createPaste_row:
  assumes "createPaste db cuid dbNow input now baseUrl = Inr (r, db0)"
  shows "new_id r = cuid \<and> db cuid = None
         \<and> db0 = db(cuid \<mapsto> \<lparr> pasteId = cuid, content = in_content input, createdAt = dbNow,
               expiresAt =
                 (case ttl_seconds input of
                    None \<Rightarrow> None
                  | Some t \<Rightarrow>
                      if t = 0 then None
                      else (case calculateExpiresAt t now of
                              Instant e \<Rightarrow> Some e | InvalidDate \<Rightarrow> None)),
               maxViews = max_views input, viewCount = 0 \<rparr>)
         \<and> (case ttl_seconds input of
               None \<Rightarrow> True
             | Some t \<Rightarrow> t = 0 \<or> calculateExpiresAt t now \<noteq> InvalidDate)
         \<and> (case max_views input of None \<Rightarrow> True | Some m \<Rightarrow> int32Min \<le> m \<and> m \<le> int32Max)"
  using assms
  by (auto simp: createPaste_def Let_def split: if_splits option.splits jsdate.splits)

text \<open>
  The claim as stated (\<open>createdAt\<close> is the \<open>now\<close> supplied to \<open>createPaste\<close>, and
  \<open>expiresAt = createdAt + ttl\<close>) fails: \<open>createPaste\<close> does not pass \<open>createdAt\<close> to the
  store, which fills it from its own clock. Here the call is made with the override
  instant 2021-01-01 while the store's clock reads 1762128000000.
\<close>

theorem createdAt_counterexample:
  "createPaste Map.empty ''a'' 1762128000000
     \<lparr> in_content = ''Timed test'', ttl_seconds = Some 60, max_views = None \<rparr>
     (Instant 1609459200000) ''http://localhost:3000''
   = Inr (\<lparr> new_id = ''a'', url = ''http://localhost:3000/p/a'' \<rparr>,
          [''a'' \<mapsto> \<lparr> pasteId = ''a'', content = ''Timed test'', createdAt = 1762128000000,
                       expiresAt = Some 1609459260000, maxViews = None, viewCount = 0 \<rparr>])
   \<and> (1762128000000 :: int) \<noteq> 1609459200000
   \<and> (1609459260000 :: int) \<noteq> 1762128000000 + 60 * 1000"
  by (simp add: createPaste_def calculateExpiresAt_def getTime_def num_add_def newDate_def
        maxTimeValue_def minDateTime_def maxDateTime_def)

text \<open>
  C6, as amended. For every \<open>createPaste\<close> call that persists a row, the persisted
  \<open>createdAt\<close> is the instant the store's clock reads at insertion, whatever \<open>now\<close> is
  supplied. The persisted \<open>expiresAt\<close> is null when \<open>ttl_seconds\<close> is absent (or 0, which
  the validation layer never lets through); when \<open>ttl_seconds = t\<close> is present, the supplied
  \<open>now\<close> is a valid instant of \<open>n\<close> milliseconds and the persisted \<open>expiresAt\<close> is
  \<open>n + t * 1000\<close>: the supplied \<open>now\<close> plus the TTL.
\<close>

theorem createPaste_timestamps:
  assumes "createPaste db cuid dbNow input now baseUrl = Inr (r, db1)"
  shows "\<exists>p. db1 (new_id r) = Some p \<and> createdAt p = dbNow \<and> viewCount p = 0
           \<and> (case ttl_seconds input of
                 None \<Rightarrow> expiresAt p = None
               | Some t \<Rightarrow>
                   if t = 0 then expiresAt p = None
                   else (\<exists>n. now = Instant n \<and> expiresAt p = Some (n + t * 1000)))"
proof -
  note row = createPaste_row [OF assms]
  show ?thesis
  proof (cases "ttl_seconds input")
    case None
    with row show ?thesis by simp
  next
    case (Some t)
    show ?thesis
    proof (cases "t = 0")
      case True
      with Some row show ?thesis by simp
    next
      case False
      with Some row obtain e where e: "calculateExpiresAt t now = Instant e"
        by (cases "calculateExpiresAt t now") auto
      from calculateExpiresAt_valid [OF e] obtain n where "now = Instant n" "e = n + t * 1000"
        by blast
      with Some False e row show ?thesis by simp
    qed
  qed
qed

theorem createPaste_timestamps_witness:
  "createPaste Map.empty ''a'' 1762128000000
     \<lparr> in_content = ''Timed test'', ttl_seconds = Some 60, max_views = None \<rparr>
     (Instant 1609459200000) ''http://localhost:3000''
   = Inr (\<lparr> new_id = ''a'', url = ''http://localhost:3000/p/a'' \<rparr>,
          [''a'' \<mapsto> \<lparr> pasteId = ''a'', content = ''Timed test'', createdAt = 1762128000000,
                       expiresAt = Some 1609459260000, maxViews = None, viewCount = 0 \<rparr>])
   \<and> (\<exists>p. [''a'' \<mapsto> \<lparr> pasteId = ''a'', content = ''Timed test'', createdAt = 1762128000000,
                         expiresAt = Some 1609459260000, maxViews = None, viewCount = 0 \<rparr>] ''a''
              = Some p
            \<and> createdAt p = 1762128000000 \<and> viewCount p = 0
            \<and> expiresAt p = Some (1609459200000 + 60 * 1000))"
proof -
  let ?input = "\<lparr> in_content = ''Timed test'', ttl_seconds = Some (60::int),
                  max_views = (None :: int option) \<rparr>"
  let ?r = "\<lparr> new_id = ''a'', url = ''http://localhost:3000/p/a'' \<rparr>"
  let ?db1 = "[''a'' \<mapsto> \<lparr> pasteId = ''a'', content = ''Timed test'', createdAt = 1762128000000,
                            expiresAt = Some 1609459260000, maxViews = None, viewCount = 0 \<rparr>]"
  have created: "createPaste Map.empty ''a'' 1762128000000 ?input (Instant 1609459200000)
                   ''http://localhost:3000'' = Inr (?r, ?db1)"
    by (simp add: createPaste_def calculateExpiresAt_def getTime_def num_add_def newDate_def
          maxTimeValue_def minDateTime_def maxDateTime_def)
  from createPaste_timestamps [OF created]
  have "\<exists>p. ?db1 ''a'' = Some p \<and> createdAt p = 1762128000000 \<and> viewCount p = 0
            \<and> expiresAt p = Some (1609459200000 + 60 * 1000)"
    by simp
  with created show ?thesis by (intro conjI)
qed

section \<open>The override value in deterministic mode\<close>

lemma digit_not_space_or_sign:
  "isDigit c \<Longrightarrow> \<not> isWhiteSpace c \<and> c \<noteq> CHR ''+'' \<and> c \<noteq> CHR ''-''"
  by (auto simp: isDigit_def isWhiteSpace_def)

lemma minus_not_space: "\<not> isWhiteSpace CHR ''-''"
  by (simp add: isWhiteSpace_def)

lemma takeWhile_all_digits: "list_all isDigit cs \<Longrightarrow> takeWhile isDigit cs = cs"
  by (simp add: list_all_iff)

lemma parseInt10_decimalInteger:
  assumes "decimalInteger v"
  shows "parseInt10 v = Num (decimalValue v)"
proof (cases v)
  case Nil
  with assms show ?thesis by (simp add: decimalInteger_def)
next
  case (Cons c cs)
  show ?thesis
  proof (cases "c = CHR ''-''")
    case True
    with Cons assms have "cs \<noteq> []" "list_all isDigit cs"
      by (simp_all add: decimalInteger_def)
    with Cons True show ?thesis
      by (simp add: parseInt10_def decimalValue_def minus_not_space takeWhile_all_digits)
  next
    case False
    with Cons assms have d: "isDigit c" "list_all isDigit cs"
      by (simp_all add: decimalInteger_def)
    from digit_not_space_or_sign [OF d(1)] d Cons False show ?thesis
      by (simp add: parseInt10_def decimalValue_def takeWhile_all_digits)
  qed
qed

lemma parseInt10_abc: "parseInt10 ''abc'' = NaN"
  by (simp add: parseInt10_def isWhiteSpace_def isDigit_def)

text \<open>
  The claim as stated (a malformed override is rejected before it reaches the core) fails:
  with \<^verbatim>\<open>TEST_MODE = '1'\<close> and the header value \<^verbatim>\<open>abc\<close>, \<open>getCurrentTime\<close> returns an Invalid
  Date, the route passes it to \<open>fetchPaste\<close>, \<open>isPasteExpired\<close> answers false for it, and a
  paste that expired at instant 60000 is served.
\<close>

theorem override_rejected_counterexample:
  "getCurrentTime (Some ''1'') [''x-test-now-ms'' \<mapsto> ''abc''] 1762128000000 = InvalidDate
   \<and> isPasteExpired (Some (Instant 60000)) InvalidDate = False
   \<and> GET (Some ''1'') [''x-test-now-ms'' \<mapsto> ''abc''] 1762128000000
        [''a'' \<mapsto> \<lparr> pasteId = ''a'', content = ''X'', createdAt = 0, expiresAt = Some 60000,
                     maxViews = None, viewCount = 0 \<rparr>] ''a''
      = (Json200 \<lparr> out_content = ''X'', remaining_views = None,
                   expires_at = Some (ISOString 60000) \<rparr>,
         [''a'' \<mapsto> \<lparr> pasteId = ''a'', content = ''X'', createdAt = 0, expiresAt = Some 60000,
                      maxViews = None, viewCount = 1 \<rparr>])"
  by (simp add: getCurrentTime_def GET_def parseInt10_abc newDate_def fetchPaste_def
        updateIncrement_def int32Max_def isPasteExpired_def date_ge_def Let_def)

text \<open>
  C9, as amended. In deterministic mode no non-empty override value is rejected: the
  route evaluates \<open>fetchPaste\<close> at \<open>new Date(parseInt(value, 10))\<close>. When the value is a
  decimal-integer string of magnitude at most \<open>maxTimeValue\<close>, that is the valid instant it
  denotes. When \<open>parseInt\<close> yields NaN, it is an Invalid Date, for which \<open>isPasteExpired\<close>
  is false whatever \<open>expiresAt\<close> is.
\<close>

theorem override_not_validated:
  assumes "hdrs ''x-test-now-ms'' = Some v" and "v \<noteq> []"
  shows "getCurrentTime (Some ''1'') hdrs wall = newDate (parseInt10 v)
         \<and> GET (Some ''1'') hdrs wall db i =
             (case fetchPaste db i (newDate (parseInt10 v)) of
                (Inr None, db') \<Rightarrow> (Json404 ''Paste not found'', db')
              | (Inr (Some r), db') \<Rightarrow> (Json200 r, db')
              | (Inl e, db') \<Rightarrow> (Json500 ''Internal server error'', db'))
         \<and> (decimalInteger v \<and> \<bar>decimalValue v\<bar> \<le> maxTimeValue \<longrightarrow>
               getCurrentTime (Some ''1'') hdrs wall = Instant (decimalValue v))
         \<and> (parseInt10 v = NaN \<longrightarrow>
               getCurrentTime (Some ''1'') hdrs wall = InvalidDate
               \<and> isPasteExpired e InvalidDate = False)"
proof -
  from assms have now: "getCurrentTime (Some ''1'') hdrs wall = newDate (parseInt10 v)"
    by (simp add: getCurrentTime_def)
  have route: "GET (Some ''1'') hdrs wall db i =
             (case fetchPaste db i (newDate (parseInt10 v)) of
                (Inr None, db') \<Rightarrow> (Json404 ''Paste not found'', db')
              | (Inr (Some r), db') \<Rightarrow> (Json200 r, db')
              | (Inl e, db') \<Rightarrow> (Json500 ''Internal server error'', db'))"
    by (simp add: GET_def now)
  have good: "decimalInteger v \<and> \<bar>decimalValue v\<bar> \<le> maxTimeValue \<longrightarrow>
               getCurrentTime (Some ''1'') hdrs wall = Instant (decimalValue v)"
    by (auto simp: now parseInt10_decimalInteger newDate_def)
  have bad: "parseInt10 v = NaN \<longrightarrow>
               getCurrentTime (Some ''1'') hdrs wall = InvalidDate
               \<and> isPasteExpired e InvalidDate = False"
    by (auto simp: now newDate_def isPasteExpired_def date_ge_def split: option.splits)
  from now route good bad show ?thesis by (intro conjI)
qed

theorem override_not_validated_witness:
  "getCurrentTime (Some ''1'') [''x-test-now-ms'' \<mapsto> ''1609459200000''] 1762128000000
     = Instant 1609459200000
   \<and> getCurrentTime (Some ''1'') [''x-test-now-ms'' \<mapsto> ''abc''] 1762128000000 = InvalidDate"
proof -
  have d: "decimalInteger ''1609459200000''"
    by (simp add: decimalInteger_def isDigit_def)
  have v: "decimalValue ''1609459200000'' = 1609459200000"
    by (simp add: decimalValue_def digitValue_def)
  note good = override_not_validated
         [of "[''x-test-now-ms'' \<mapsto> ''1609459200000'']" "''1609459200000''" 1762128000000
             Map.empty "''a''" None, simplified, THEN conjunct2, THEN conjunct2, THEN conjunct1]
  from good d v
  have a: "getCurrentTime (Some ''1'') [''x-test-now-ms'' \<mapsto> ''1609459200000''] 1762128000000
             = Instant 1609459200000"
    by (simp add: maxTimeValue_def)
  note bad = override_not_validated
         [of "[''x-test-now-ms'' \<mapsto> ''abc'']" "''abc''" 1762128000000 Map.empty "''a''" None,
          simplified, THEN conjunct2, THEN conjunct2, THEN conjunct2]
  from bad parseInt10_abc
  have b: "getCurrentTime (Some ''1'') [''x-test-now-ms'' \<mapsto> ''abc''] 1762128000000 = InvalidDate"
    by simp
  from a b show ?thesis by (intro conjI)
qed

end
